theory Spec2Isabelle
  imports Complex_Main
begin

section \<open>Decimal arithmetic\<close>

text \<open>
  Money is Python's \<open>Decimal\<close>. A \<open>Decimal\<close> is a finite decimal fraction; the values are
  modelled by rationals. An arithmetic operation of Python computes the exact result and
  rounds it in the arithmetic context, which is the default one in this program: 28
  significant digits, a tie going to the even digit (\<open>ROUND_HALF_EVEN\<close>). Comparisons
  and the conversion \<open>Decimal(str(amount))\<close> of a \<open>Decimal\<close> are exact. The exponent range
  of the context (10 to the power of plus or minus 999999) is not modelled.
\<close>

type_synonym Decimal = rat

definition round_half_even :: "rat \<Rightarrow> int" where
  "round_half_even x =
     (let n = \<lfloor>x\<rfloor>; r = x - of_int n
      in if r < 1 / 2 then n
         else if 1 / 2 < r then n + 1
         else if even n then n else n + 1)"

text \<open>
  The position of the leading digit of a value: \<open>up10\<close> counts the divisions by 10 that
  bring a value of at least 1 below 10, \<open>down10\<close> the multiplications by 10 that bring a
  positive value below 1 up to 1.
\<close>

function up10 :: "rat \<Rightarrow> nat" where
  "up10 x = (if 10 \<le> x then Suc (up10 (x / 10)) else 0)"
  by pat_completeness auto
termination
proof (relation "measure (\<lambda>x. nat \<lfloor>x\<rfloor>)")
  show "wf (measure (\<lambda>x::rat. nat \<lfloor>x\<rfloor>))" by simp
next
  fix x :: rat
  assume "10 \<le> x"
  then have "x / 10 \<le> x - 9" by simp
  then have "\<lfloor>x / 10\<rfloor> \<le> \<lfloor>x - 9\<rfloor>" by (rule floor_mono)
  also have "\<dots> = \<lfloor>x\<rfloor> - 9" by simp
  finally have "\<lfloor>x / 10\<rfloor> < \<lfloor>x\<rfloor>" by simp
  moreover have "0 < \<lfloor>x\<rfloor>" using \<open>10 \<le> x\<close> by simp
  ultimately show "(x / 10, x) \<in> measure (\<lambda>x. nat \<lfloor>x\<rfloor>)" by simp
qed

function down10 :: "rat \<Rightarrow> nat" where
  "down10 x = (if 0 < x \<and> x < 1 then Suc (down10 (x * 10)) else 0)"
  by pat_completeness auto
termination
proof (relation "measure (\<lambda>x. nat \<lceil>1 / x\<rceil>)")
  show "wf (measure (\<lambda>x::rat. nat \<lceil>1 / x\<rceil>))" by simp
next
  fix x :: rat
  assume a: "0 < x \<and> x < 1"
  then have y: "1 < 1 / x" by simp
  then have c: "2 \<le> \<lceil>1 / x\<rceil>" by (simp add: le_ceiling_iff)
  have "1 / (x * 10) = (1 / x) / 10" by simp
  also have "\<dots> \<le> of_int \<lceil>1 / x\<rceil> / 10" by (simp add: divide_right_mono)
  also have "\<dots> \<le> of_int (\<lceil>1 / x\<rceil> - 1)"
  proof -
    from c have "(2::rat) \<le> of_int \<lceil>1 / x\<rceil>"
      using of_int_le_iff [of 2 "\<lceil>1 / x\<rceil>", where ?'a = rat] by simp
    then have "rat_of_int \<lceil>1 / x\<rceil> / 10 \<le> of_int \<lceil>1 / x\<rceil> - 1" by linarith
    then show ?thesis by (simp only: of_int_diff of_int_1)
  qed
  finally have "\<lceil>1 / (x * 10)\<rceil> \<le> \<lceil>1 / x\<rceil> - 1" by (simp only: ceiling_le_iff)
  with c have "nat \<lceil>1 / (x * 10)\<rceil> < nat \<lceil>1 / x\<rceil>" by linarith
  then show "(x * 10, x) \<in> measure (\<lambda>x. nat \<lceil>1 / x\<rceil>)" by simp
qed

declare up10.simps [simp del] down10.simps [simp del]

definition adjusted :: "rat \<Rightarrow> int" where
  "adjusted x = (if 1 \<le> \<bar>x\<bar> then int (up10 \<bar>x\<bar>) else - int (down10 \<bar>x\<bar>))"

definition prec :: int where
  "prec = 28"

text \<open>
  The rounding of the context: the value is cut after \<open>prec\<close> significant digits, counted
  from its leading digit.
\<close>

definition context_round :: "Decimal \<Rightarrow> Decimal" where
  "context_round x =
     (let q = 10 powi (adjusted x - (prec - 1))
      in of_int (round_half_even (x / q)) * q)"

definition Decimal_add :: "Decimal \<Rightarrow> Decimal \<Rightarrow> Decimal" where
  "Decimal_add x y = context_round (x + y)"

definition Decimal_sub :: "Decimal \<Rightarrow> Decimal \<Rightarrow> Decimal" where
  "Decimal_sub x y = context_round (x - y)"

definition Decimal_mul :: "Decimal \<Rightarrow> Decimal \<Rightarrow> Decimal" where
  "Decimal_mul x y = context_round (x * y)"

definition Decimal_div :: "Decimal \<Rightarrow> Decimal \<Rightarrow> Decimal" where
  "Decimal_div x y = context_round (x / y)"

section \<open>Data model of accounts/models.py\<close>

datatype account_type = SAVINGS | CURRENT

text \<open>
  The fields of the abstract class \<open>Account\<close> and of its two subclasses. \<open>pk\<close> is the
  primary key of the row, which the foreign keys of \<open>Transaction\<close> refer to; \<open>customer\<close>
  is the key of the owning user. The timestamps \<open>created_at\<close> and \<open>updated_at\<close> are
  written by the persistence layer and are left out.
\<close>

record account =
  pk :: nat
  customer :: nat
  account_number :: string
  account_type :: account_type
  balance :: Decimal
  is_active :: bool

datatype transaction_type = DEPOSIT | WITHDRAWAL | TRANSFER_IN | TRANSFER_OUT | FEE

text \<open>
  A \<open>Transaction\<close>, with the field values that \<open>Transaction.objects.create\<close> is given. The
  two nullable foreign keys hold the primary key of the savings or of the current
  account the entry belongs to. The \<open>timestamp\<close> is written by the persistence layer and
  is left out.
\<close>

record transaction =
  transaction_id :: string
  savings_account :: "nat option"
  current_account :: "nat option"
  transaction_type :: transaction_type
  amount :: Decimal
  balance_after :: Decimal
  description :: string

text \<open>
  The failures of the account methods. The first five are the \<open>ValueError\<close>s the methods
  raise, named after the message they carry:
  \<^item> \<open>InvalidAmount\<close>: "Deposit amount must be positive" and
    "Withdrawal amount must be positive";
  \<^item> \<open>LimitExceeded\<close>: "Daily withdrawal limit is 50000.00";
  \<^item> \<open>InsufficientBalance\<close>: "Insufficient balance. Minimum balance required: 500.00";
  \<^item> \<open>OverdraftExceeded\<close>: "Overdraft limit exceeded. Limit: 10000.00";
  \<^item> \<open>NegativeBalance\<close>: "Balance cannot be negative" (\<open>set_balance\<close>).

  \<open>IntegrityError\<close> is raised by the persistence layer when a row would repeat the value
  of a column declared \<open>unique=True\<close> (\<open>account_number\<close>, \<open>transaction_id\<close>).
\<close>

datatype error =
  InvalidAmount | LimitExceeded | InsufficientBalance | OverdraftExceeded | NegativeBalance
  | IntegrityError

text \<open>
  The state a method runs in:
  \<^item> \<open>self\<close>, the account object;
  \<^item> \<open>transactions\<close>, the rows of \<open>Transaction\<close> in the order of their creation (oldest
    first), each with the field values it was created with;
  \<^item> \<open>account_numbers\<close>, the account numbers of the other rows of the table of the
    account's class;
  \<^item> \<open>draws\<close>, the source of randomness of \<open>random.choices\<close>, as the sequence of the
    draws still to come.

  Of the persistence layer, the state has what does not depend on the database in use:
  which rows exist and the refusal of a repeated unique value. The scale and the number
  of digits at which a database stores a decimal column (\<open>max_digits=12\<close>,
  \<open>decimal_places=2\<close>) are not part of it: the methods compute with the fields of the
  object, which no write changes.
\<close>

record state =
  self :: account
  transactions :: "transaction list"
  account_numbers :: "string list"
  draws :: "nat \<Rightarrow> nat"

section \<open>Account\<close>

definition digits :: string where
  "digits = ''0123456789''"

text \<open>\<open>random.choices(population, k=k)\<close>: \<open>k\<close> draws with replacement.\<close>

definition choices :: "'a list \<Rightarrow> nat \<Rightarrow> (nat \<Rightarrow> nat) \<Rightarrow> 'a list" where
  "choices population k g = map (\<lambda>i. population ! (g i mod length population)) [0..<k]"

definition generate_account_number :: "(nat \<Rightarrow> nat) \<Rightarrow> string" where
  "generate_account_number g = choices digits 12 g"

text \<open>
  \<open>Account.save\<close>, the statement of the method itself: an empty account number is
  generated.
\<close>

definition Account_save :: "state \<Rightarrow> state" where
  "Account_save s =
     (if account_number (self s) = []
      then s\<lparr>self := (self s)\<lparr>account_number := generate_account_number (draws s)\<rparr>,
             draws := (\<lambda>i. draws s (i + 12))\<rparr>
      else s)"

text \<open>
  A call of \<open>save()\<close> on an account: \<open>Account.save\<close> and then the write of the row, which
  the unique column \<open>account_number\<close> refuses when another row of the table has the
  number. The object keeps what was assigned to it.
\<close>

definition save :: "state \<Rightarrow> (error + unit) \<times> state" where
  "save s =
     (let s' = Account_save s
      in if account_number (self s') \<in> set (account_numbers s')
         then (Inl IntegrityError, s')
         else (Inr (), s'))"

definition get_balance :: "state \<Rightarrow> Decimal" where
  "get_balance s = balance (self s)"

definition set_balance :: "state \<Rightarrow> Decimal \<Rightarrow> (error + unit) \<times> state" where
  "set_balance s amt =
     (if amt < 0 then (Inl NegativeBalance, s)
      else save (s\<lparr>self := (self s)\<lparr>balance := amt\<rparr>\<rparr>))"

section \<open>Transaction\<close>

definition generate_transaction_id :: "(nat \<Rightarrow> nat) \<Rightarrow> string" where
  "generate_transaction_id g = ''TXN'' @ choices digits 10 g"

text \<open>
  \<open>Transaction.save\<close>: an empty transaction id is generated, and the row is written,
  which the unique column \<open>transaction_id\<close> refuses when a row of the table has the id.
\<close>

definition Transaction_save :: "transaction \<Rightarrow> state \<Rightarrow> (error + unit) \<times> state" where
  "Transaction_save t s =
     (let t' = (if transaction_id t = []
                then t\<lparr>transaction_id := generate_transaction_id (draws s)\<rparr> else t);
          s' = (if transaction_id t = []
                then s\<lparr>draws := (\<lambda>i. draws s (i + 10))\<rparr> else s)
      in if transaction_id t' \<in> set (map transaction_id (transactions s))
         then (Inl IntegrityError, s')
         else (Inr (), s'\<lparr>transactions := transactions s @ [t']\<rparr>))"

text \<open>
  \<open>Transaction.objects.create(...)\<close> builds the row from the given fields and saves
  it; the callers give no transaction id, which leaves the field at its empty default.
\<close>

definition Transaction_create :: "transaction \<Rightarrow> state \<Rightarrow> (error + unit) \<times> state" where
  "Transaction_create t s = Transaction_save t s"

section \<open>Exceptions of the persistence layer\<close>

text \<open>
  An exception of \<open>save\<close> or of \<open>create\<close> ends the method that made the call, in the
  state reached at the raise: what the method did before stays done. The rest of the
  method runs when the call returns.
\<close>

definition and_then ::
  "(error + unit) \<times> state \<Rightarrow> (state \<Rightarrow> (error + 'a) \<times> state) \<Rightarrow> (error + 'a) \<times> state" where
  "and_then r rest = (case r of (Inl e, s) \<Rightarrow> (Inl e, s) | (Inr u, s) \<Rightarrow> rest s)"

section \<open>SavingsAccount\<close>

definition SavingsAccount_MINIMUM_BALANCE :: Decimal where
  "SavingsAccount_MINIMUM_BALANCE = 500"

definition INTEREST_RATE :: Decimal where
  "INTEREST_RATE = 4 / 100"

definition WITHDRAWAL_LIMIT :: Decimal where
  "WITHDRAWAL_LIMIT = 50000"

definition SavingsAccount_deposit :: "state \<Rightarrow> Decimal \<Rightarrow> (error + bool) \<times> state" where
  "SavingsAccount_deposit s amt =
     (if amt \<le> 0 then (Inl InvalidAmount, s)
      else
        and_then (save (s\<lparr>self := (self s)\<lparr>balance := Decimal_add (balance (self s)) amt\<rparr>\<rparr>)) (\<lambda>s2.
        and_then
          (Transaction_create
            \<lparr>transaction_id = [],
             savings_account = Some (pk (self s2)),
             current_account = None,
             transaction_type = DEPOSIT,
             amount = amt,
             balance_after = balance (self s2),
             description = ''Deposit to '' @ account_number (self s2)\<rparr> s2) (\<lambda>s3.
        (Inr True, s3))))"

definition SavingsAccount_withdraw :: "state \<Rightarrow> Decimal \<Rightarrow> (error + bool) \<times> state" where
  "SavingsAccount_withdraw s amt =
     (if amt \<le> 0 then (Inl InvalidAmount, s)
      else if amt > WITHDRAWAL_LIMIT then (Inl LimitExceeded, s)
      else if Decimal_sub (balance (self s)) amt < SavingsAccount_MINIMUM_BALANCE
        then (Inl InsufficientBalance, s)
      else
        and_then (save (s\<lparr>self := (self s)\<lparr>balance := Decimal_sub (balance (self s)) amt\<rparr>\<rparr>)) (\<lambda>s2.
        and_then
          (Transaction_create
            \<lparr>transaction_id = [],
             savings_account = Some (pk (self s2)),
             current_account = None,
             transaction_type = WITHDRAWAL,
             amount = amt,
             balance_after = balance (self s2),
             description = ''Withdrawal from '' @ account_number (self s2)\<rparr> s2) (\<lambda>s3.
        (Inr True, s3))))"

text \<open>
  \<open>calculate_interest\<close>: the monthly interest, product and quotient each rounded by the
  context, is handed to \<open>deposit\<close> as it is and returned as it is; an exception of
  \<open>deposit\<close> propagates.
\<close>

definition calculate_interest :: "state \<Rightarrow> (error + Decimal) \<times> state" where
  "calculate_interest s =
     (let interest = Decimal_div (Decimal_mul (balance (self s)) INTEREST_RATE) 12
      in case SavingsAccount_deposit s interest of
           (Inl e, s') \<Rightarrow> (Inl e, s')
         | (Inr _, s') \<Rightarrow> (Inr interest, s'))"

section \<open>CurrentAccount\<close>

definition CurrentAccount_MINIMUM_BALANCE :: Decimal where
  "CurrentAccount_MINIMUM_BALANCE = 1000"

definition OVERDRAFT_LIMIT :: Decimal where
  "OVERDRAFT_LIMIT = 10000"

definition TRANSACTION_FEE :: Decimal where
  "TRANSACTION_FEE = 10"

definition CurrentAccount_deposit :: "state \<Rightarrow> Decimal \<Rightarrow> (error + bool) \<times> state" where
  "CurrentAccount_deposit s amt =
     (if amt \<le> 0 then (Inl InvalidAmount, s)
      else
        and_then (save (s\<lparr>self := (self s)\<lparr>balance := Decimal_add (balance (self s)) amt\<rparr>\<rparr>)) (\<lambda>s2.
        and_then
          (Transaction_create
            \<lparr>transaction_id = [],
             savings_account = None,
             current_account = Some (pk (self s2)),
             transaction_type = DEPOSIT,
             amount = amt,
             balance_after = balance (self s2),
             description = ''Deposit to '' @ account_number (self s2)\<rparr> s2) (\<lambda>s3.
        (Inr True, s3))))"

definition CurrentAccount_withdraw :: "state \<Rightarrow> Decimal \<Rightarrow> (error + bool) \<times> state" where
  "CurrentAccount_withdraw s amt =
     (if amt \<le> 0 then (Inl InvalidAmount, s)
      else if Decimal_sub (balance (self s)) amt < - OVERDRAFT_LIMIT
        then (Inl OverdraftExceeded, s)
      else
        let total_deduction = Decimal_add amt TRANSACTION_FEE
        in
        and_then (save (s\<lparr>self := (self s)\<lparr>balance :=
                          Decimal_sub (balance (self s)) total_deduction\<rparr>\<rparr>)) (\<lambda>s2.
        and_then
          (Transaction_create
            \<lparr>transaction_id = [],
             savings_account = None,
             current_account = Some (pk (self s2)),
             transaction_type = WITHDRAWAL,
             amount = amt,
             balance_after = balance (self s2),
             description = ''Withdrawal from '' @ account_number (self s2)\<rparr> s2) (\<lambda>s3.
        and_then
          (Transaction_create
            \<lparr>transaction_id = [],
             savings_account = None,
             current_account = Some (pk (self s3)),
             transaction_type = FEE,
             amount = TRANSACTION_FEE,
             balance_after = balance (self s3),
             description = ''Transaction fee''\<rparr> s3) (\<lambda>s4.
        (Inr True, s4)))))"

text \<open>
  The method a call reaches is the one of the object's class; the constructors of the
  two classes fix \<open>account_type\<close>, so the dispatch reads that field.
\<close>

definition get_minimum_balance :: "state \<Rightarrow> Decimal" where
  "get_minimum_balance s =
     (case account_type (self s) of
        SAVINGS \<Rightarrow> SavingsAccount_MINIMUM_BALANCE
      | CURRENT \<Rightarrow> CurrentAccount_MINIMUM_BALANCE)"

definition deposit :: "state \<Rightarrow> Decimal \<Rightarrow> (error + bool) \<times> state" where
  "deposit s amt =
     (case account_type (self s) of
        SAVINGS \<Rightarrow> SavingsAccount_deposit s amt
      | CURRENT \<Rightarrow> CurrentAccount_deposit s amt)"

definition withdraw :: "state \<Rightarrow> Decimal \<Rightarrow> (error + bool) \<times> state" where
  "withdraw s amt =
     (case account_type (self s) of
        SAVINGS \<Rightarrow> SavingsAccount_withdraw s amt
      | CURRENT \<Rightarrow> CurrentAccount_withdraw s amt)"

section \<open>Sequences of operations and the ledger of one account\<close>

text \<open>
  A sequence of successful operations on the same account object: \<open>run\<close> gives the state
  after the last one, and nothing when one of them raises.
\<close>

datatype operation = Deposit Decimal | Withdraw Decimal

fun apply_operation :: "state \<Rightarrow> operation \<Rightarrow> (error + bool) \<times> state" where
  "apply_operation s (Deposit amt) = deposit s amt"
| "apply_operation s (Withdraw amt) = withdraw s amt"

fun run :: "state \<Rightarrow> operation list \<Rightarrow> state option" where
  "run s [] = Some s"
| "run s (x # xs) =
     (case apply_operation s x of
        (Inl e, s') \<Rightarrow> None
      | (Inr _, s') \<Rightarrow> run s' xs)"

text \<open>
  The entries of an account, oldest first: the reverse relation \<open>transactions\<close> of the
  foreign key that belongs to the account's class.
\<close>

definition entries_of :: "account \<Rightarrow> transaction list \<Rightarrow> transaction list" where
  "entries_of a ts =
     filter (\<lambda>t. case account_type a of
                    SAVINGS \<Rightarrow> savings_account t = Some (pk a)
                  | CURRENT \<Rightarrow> current_account t = Some (pk a)) ts"

text \<open>
  The ledger invariant of the specification: the balance is the \<open>balance_after\<close> of the
  most recently created entry of the account, or the seed value when it has none.
\<close>

definition ledger_inv :: "Decimal \<Rightarrow> state \<Rightarrow> bool" where
  "ledger_inv seed s =
     (let es = entries_of (self s) (transactions s)
      in balance (self s) = (if es = [] then seed else balance_after (last es)))"

text \<open>The same state with the flag \<open>is_active\<close> of the account set to \<open>b\<close>.\<close>

definition with_is_active :: "bool \<Rightarrow> state \<Rightarrow> state" where
  "with_is_active b s = s\<lparr>self := (self s)\<lparr>is_active := b\<rparr>\<rparr>"

section \<open>The rules of the specification for amounts and rounding\<close>

text \<open>
  The specification's validation rule for the scale of an amount: at most 2 fractional
  digits.
\<close>

definition at_most_2_fractional_digits :: "Decimal \<Rightarrow> bool" where
  "at_most_2_fractional_digits x = (of_int \<lfloor>x * 100\<rfloor> = x * 100)"

text \<open>
  A value of the type the columns \<open>balance\<close>, \<open>amount\<close> and \<open>balance_after\<close> are declared
  with, \<open>DecimalField(max_digits=12, decimal_places=2)\<close>: at most 2 fractional digits and
  at most 10 digits before the point.
\<close>

definition column_value :: "Decimal \<Rightarrow> bool" where
  "column_value x = (at_most_2_fractional_digits x \<and> \<bar>x\<bar> < 10 ^ 10)"



section \<open>Example states\<close>

text \<open>
  Two sources of randomness. Every draw of \<open>zero_draws\<close> picks the digit 0, so that every
  generated id and number repeats the one before. The draws of \<open>block_draws\<close> pick ten
  times 0, then ten times 1 and so on, so that the first ten transaction ids differ.
\<close>

definition zero_draws :: "nat \<Rightarrow> nat" where
  "zero_draws i = 0"

definition block_draws :: "nat \<Rightarrow> nat" where
  "block_draws i = i div 10"

definition savings_1000 :: state where
  "savings_1000 =
     \<lparr>self = \<lparr>pk = 1, customer = 1, account_number = ''100000000001'',
              account_type = SAVINGS, balance = 1000, is_active = True\<rparr>,
      transactions = [], account_numbers = [], draws = zero_draws\<rparr>"


definition savings_500 :: state where
  "savings_500 =
     \<lparr>self = \<lparr>pk = 7, customer = 1, account_number = ''100000000007'',
              account_type = SAVINGS, balance = 500, is_active = True\<rparr>,
      transactions = [], account_numbers = [], draws = zero_draws\<rparr>"

definition current_0 :: state where
  "current_0 =
     \<lparr>self = \<lparr>pk = 1, customer = 1, account_number = ''200000000001'',
              account_type = CURRENT, balance = 0, is_active = True\<rparr>,
      transactions = [], account_numbers = [], draws = block_draws\<rparr>"


text \<open>A current account at its overdraft limit, with the balance -10000.00.\<close>

definition current_at_limit :: state where
  "current_at_limit =
     \<lparr>self = \<lparr>pk = 3, customer = 1, account_number = ''200000000003'',
              account_type = CURRENT, balance = - 10000, is_active = True\<rparr>,
      transactions = [], account_numbers = [], draws = block_draws\<rparr>"

text \<open>A current account with the balance 0.00000000000000000000001.\<close>

definition current_tiny :: state where
  "current_tiny =
     \<lparr>self = \<lparr>pk = 2, customer = 1, account_number = ''200000000002'',
              account_type = CURRENT, balance = 1 / 10 ^ 23, is_active = True\<rparr>,
      transactions = [], account_numbers = [], draws = block_draws\<rparr>"

definition savings_601_50 :: state where
  "savings_601_50 =
     \<lparr>self = \<lparr>pk = 2, customer = 1, account_number = ''100000000002'',
              account_type = SAVINGS, balance = 1203 / 2, is_active = True\<rparr>,
      transactions = [], account_numbers = [], draws = zero_draws\<rparr>"


definition savings_inactive :: state where
  "savings_inactive =
     \<lparr>self = \<lparr>pk = 3, customer = 1, account_number = ''100000000003'',
              account_type = SAVINGS, balance = 1000, is_active = False\<rparr>,
      transactions = [], account_numbers = [], draws = zero_draws\<rparr>"

text \<open>
  Two new accounts, not yet numbered. The second one is created after the first one was
  saved, with the draws that remain; every draw of \<open>zero_draws\<close> picks the digit 0.
\<close>

definition new_savings :: state where
  "new_savings =
     \<lparr>self = \<lparr>pk = 4, customer = 1, account_number = [],
              account_type = SAVINGS, balance = 500, is_active = True\<rparr>,
      transactions = [], account_numbers = [], draws = zero_draws\<rparr>"

definition new_current :: state where
  "new_current =
     \<lparr>self = \<lparr>pk = 5, customer = 2, account_number = [],
              account_type = CURRENT, balance = 1000, is_active = True\<rparr>,
      transactions = [], account_numbers = [], draws = draws (Account_save new_savings)\<rparr>"

section \<open>Auxiliary facts: the rounding of the context\<close>

lemma round_half_even_of_int: "round_half_even (of_int n) = n"
  by (simp add: round_half_even_def)



lemma up10_le: "1 \<le> x \<Longrightarrow> 10 ^ up10 x \<le> x"
proof (induction x rule: up10.induct)
  case (1 x)
  show ?case
  proof (cases "10 \<le> x")
    case True
    then have "1 \<le> x / 10" by simp
    with 1 True have "10 ^ up10 (x / 10) \<le> x / 10" by simp
    then have "10 * 10 ^ up10 (x / 10) \<le> x" by simp
    moreover have "up10 x = Suc (up10 (x / 10))" using True by (subst up10.simps) simp
    ultimately show ?thesis by simp
  next
    case False
    then have "up10 x = 0" by (subst up10.simps) simp
    with 1 show ?thesis by simp
  qed
qed

lemma down10_le: "0 < x \<Longrightarrow> x < 1 \<Longrightarrow> 1 \<le> x * 10 ^ down10 x"
proof (induction x rule: down10.induct)
  case (1 x)
  have d: "down10 x = Suc (down10 (x * 10))" using 1 by (subst down10.simps) simp
  show ?case
  proof (cases "x * 10 < 1")
    case True
    with 1 have "1 \<le> x * 10 * 10 ^ down10 (x * 10)" by simp
    then show ?thesis by (simp add: d mult.assoc)
  next
    case False
    then have "down10 (x * 10) = 0" by (subst down10.simps) simp
    with False show ?thesis by (simp add: d)
  qed
qed

lemma adjusted_le: "x \<noteq> 0 \<Longrightarrow> 10 powi adjusted x \<le> \<bar>x\<bar>"
proof (cases "1 \<le> \<bar>x\<bar>")
  case True
  then show ?thesis using up10_le [of "\<bar>x\<bar>"] by (simp add: adjusted_def)
next
  case False
  assume "x \<noteq> 0"
  with False have p: "0 < \<bar>x\<bar>" "\<bar>x\<bar> < 1" by simp_all
  from down10_le [OF p] have "1 \<le> \<bar>x\<bar> * 10 ^ down10 \<bar>x\<bar>" .
  then have "1 / 10 ^ down10 \<bar>x\<bar> \<le> \<bar>x\<bar>"
    by (simp add: divide_le_eq)
  with False show ?thesis
    by (simp add: adjusted_def power_int_minus_divide)
qed

text \<open>A value with at most 28 significant digits is not changed.\<close>

lemma context_round_exact:
  assumes x: "x = of_int n * 10 powi k" and n: "\<bar>n\<bar> < 10 ^ 28"
  shows "context_round x = x"
proof (cases "x = 0")
  case True
  then show ?thesis by (simp add: context_round_def round_half_even_def)
next
  case False
  define e where "e = adjusted x"
  have "10 powi e \<le> \<bar>x\<bar>" unfolding e_def using False by (rule adjusted_le)
  also have "\<bar>x\<bar> = of_int \<bar>n\<bar> * 10 powi k" by (simp add: x abs_mult)
  also have "\<dots> < 10 ^ 28 * 10 powi k"
  proof -
    have "rat_of_int \<bar>n\<bar> < 10 ^ 28"
      using n of_int_less_iff [of "\<bar>n\<bar>" "10 ^ 28", where ?'a = rat] by simp
    then show ?thesis by (simp add: mult_strict_right_mono)
  qed
  also have "\<dots> = 10 powi (28 + k)" by (simp add: power_int_add)
  finally have lt: "(10::rat) powi e < 10 powi (28 + k)" .
  have "e < 28 + k"
  proof (rule ccontr)
    assume "\<not> e < 28 + k"
    then have "28 + k \<le> e" by simp
    then have "(10::rat) powi (28 + k) \<le> 10 powi e" by (rule power_int_increasing) simp
    with lt show False by simp
  qed
  define m where "m = nat (k - (e - 27))"
  have m: "k - (e - 27) = int m" using \<open>e < 28 + k\<close> by (simp add: m_def)
  have "x / 10 powi (e - 27) = of_int n * 10 powi (k - (e - 27))"
    by (simp add: x power_int_diff)
  also have "\<dots> = of_int (n * 10 ^ m)" by (simp add: m)
  finally have "round_half_even (x / 10 powi (e - 27)) = n * 10 ^ m"
    by (simp only: round_half_even_of_int)
  then have "context_round x = of_int (n * 10 ^ m) * 10 powi (e - 27)"
    by (simp add: context_round_def prec_def e_def)
  also have "\<dots> = of_int n * (10 powi int m * 10 powi (e - 27))" by simp
  also have "10 powi int m * 10 powi (e - 27) = (10::rat) powi k"
  proof -
    have "int m + (e - 27) = k" using m by simp
    moreover have "(10::rat) powi int m * 10 powi (e - 27) = 10 powi (int m + (e - 27))"
      by (rule power_int_add [symmetric]) simp
    ultimately show ?thesis by simp
  qed
  finally show ?thesis by (simp only: x)
qed

lemma at_most_2_fractional_digits_iff: "at_most_2_fractional_digits x \<longleftrightarrow> x * 100 \<in> \<int>"
  by (metis at_most_2_fractional_digits_def Ints_of_int of_int_floor)

lemma context_round_scale2:
  assumes "at_most_2_fractional_digits x" and "\<bar>x\<bar> < 10 ^ 26"
  shows "context_round x = x"
proof -
  from assms(1) obtain n :: int where n: "x * 100 = of_int n"
    by (auto simp: at_most_2_fractional_digits_iff elim: Ints_cases)
  then have x: "x = of_int n * 10 powi (- 2)" by (simp add: power_int_minus_divide)
  have "\<bar>x * 100\<bar> < 10 ^ 28" using assms(2) by (simp add: abs_mult)
  then have "rat_of_int \<bar>n\<bar> < of_int (10 ^ 28)" by (simp add: n)
  then have "\<bar>n\<bar> < 10 ^ 28" by (simp only: of_int_less_iff)
  with x show ?thesis by (rule context_round_exact)
qed




text \<open>On values of the column type the operations of the methods are exact.\<close>

lemma at_most_2_fractional_digits_diff:
  "at_most_2_fractional_digits a \<Longrightarrow> at_most_2_fractional_digits b
   \<Longrightarrow> at_most_2_fractional_digits (a - b)"
  by (simp add: at_most_2_fractional_digits_iff left_diff_distrib)

lemma at_most_2_fractional_digits_add:
  "at_most_2_fractional_digits a \<Longrightarrow> at_most_2_fractional_digits b
   \<Longrightarrow> at_most_2_fractional_digits (a + b)"
  by (simp add: at_most_2_fractional_digits_iff distrib_right)

lemma at_most_2_fractional_digits_numeral: "at_most_2_fractional_digits (numeral n)"
  by (simp add: at_most_2_fractional_digits_iff)

lemma column_Decimal_sub:
  assumes "column_value a" and "column_value b"
  shows "Decimal_sub a b = a - b"
proof -
  have "\<bar>a - b\<bar> \<le> \<bar>a\<bar> + \<bar>b\<bar>" by simp
  also have "\<dots> < 10 ^ 26" using assms by (simp add: column_value_def)
  finally show ?thesis
    using assms
    by (simp add: Decimal_sub_def column_value_def context_round_scale2
        at_most_2_fractional_digits_diff)
qed

lemma column_Decimal_add:
  assumes "column_value a" and "column_value b"
  shows "Decimal_add a b = a + b"
proof -
  have "\<bar>a + b\<bar> \<le> \<bar>a\<bar> + \<bar>b\<bar>" by simp
  also have "\<dots> < 10 ^ 26" using assms by (simp add: column_value_def)
  finally show ?thesis
    using assms
    by (simp add: Decimal_add_def column_value_def context_round_scale2
        at_most_2_fractional_digits_add)
qed

lemma column_value_TRANSACTION_FEE: "column_value TRANSACTION_FEE"
  by (simp add: column_value_def TRANSACTION_FEE_def at_most_2_fractional_digits_numeral)

text \<open>The deduction of a current account's withdrawal is exact on column values.\<close>

lemma column_total_deduction:
  assumes "column_value b" and "column_value a"
  shows "Decimal_sub b (Decimal_add a TRANSACTION_FEE) = b - (a + TRANSACTION_FEE)"
proof -
  have t: "Decimal_add a TRANSACTION_FEE = a + TRANSACTION_FEE"
    using assms(2) column_value_TRANSACTION_FEE by (rule column_Decimal_add)
  have s2: "at_most_2_fractional_digits (b - (a + TRANSACTION_FEE))"
    using assms column_value_TRANSACTION_FEE
    by (simp add: column_value_def at_most_2_fractional_digits_diff
        at_most_2_fractional_digits_add)
  have "\<bar>b - (a + TRANSACTION_FEE)\<bar> \<le> \<bar>b\<bar> + \<bar>a\<bar> + 10"
    by (simp add: TRANSACTION_FEE_def)
  also have "\<dots> < 10 ^ 26" using assms by (simp add: column_value_def)
  finally have "context_round (b - (a + TRANSACTION_FEE)) = b - (a + TRANSACTION_FEE)"
    using s2 by (simp add: context_round_scale2)
  then show ?thesis by (simp add: t Decimal_sub_def)
qed



section \<open>Auxiliary facts: saving and creating\<close>

lemma save_keeps_pk: "pk (self (Account_save s)) = pk (self s)"
  by (simp add: Account_save_def)

lemma save_keeps_account_type: "account_type (self (Account_save s)) = account_type (self s)"
  by (simp add: Account_save_def)

lemma save_keeps_balance: "balance (self (Account_save s)) = balance (self s)"
  by (simp add: Account_save_def)

lemma save_keeps_is_active: "is_active (self (Account_save s)) = is_active (self s)"
  by (simp add: Account_save_def)

lemma save_keeps_transactions: "transactions (Account_save s) = transactions s"
  by (simp add: Account_save_def)

lemma snd_save: "snd (save s) = Account_save s"
  by (simp add: save_def Let_def)

lemma fst_save: "fst (save s) = Inr () \<or> fst (save s) = Inl IntegrityError"
  by (simp add: save_def Let_def)

lemma and_then_save:
  "and_then (save s) rest =
     (if account_number (self (Account_save s)) \<in> set (account_numbers (Account_save s))
      then (Inl IntegrityError, Account_save s)
      else rest (Account_save s))"
  by (simp add: and_then_def save_def Let_def)

lemma and_then_create:
  "transaction_id t = [] \<Longrightarrow>
   and_then (Transaction_create t s) rest =
     (if generate_transaction_id (draws s) \<in> set (map transaction_id (transactions s))
      then (Inl IntegrityError, s\<lparr>draws := (\<lambda>i. draws s (i + 10))\<rparr>)
      else rest (s\<lparr>draws := (\<lambda>i. draws s (i + 10)),
                   transactions := transactions s
                     @ [t\<lparr>transaction_id := generate_transaction_id (draws s)\<rparr>]\<rparr>))"
  by (simp add: and_then_def Transaction_create_def Transaction_save_def Let_def)

lemma save_keeps_account_numbers: "account_numbers (Account_save s) = account_numbers s"
  by (simp add: Account_save_def)

text \<open>A successful operation establishes the ledger invariant.\<close>

lemma entries_of_save: "entries_of (self (Account_save s)) ts = entries_of (self s) ts"
  by (simp add: entries_of_def save_keeps_pk save_keeps_account_type
      split: account_type.split)

lemmas commit_simps =
  and_then_save and_then_create Let_def save_keeps_pk save_keeps_account_type
  save_keeps_balance save_keeps_transactions save_keeps_account_numbers

lemma deposit_ledger_inv:
  assumes "fst (deposit s amt) = Inr b"
  shows "ledger_inv seed (snd (deposit s amt))"
proof (cases "account_type (self s)")
  case SAVINGS
  with assms show ?thesis
    by (simp add: deposit_def SavingsAccount_deposit_def ledger_inv_def commit_simps
          entries_of_def split: if_splits)
next
  case CURRENT
  with assms show ?thesis
    by (simp add: deposit_def CurrentAccount_deposit_def ledger_inv_def commit_simps
          entries_of_def split: if_splits)
qed

lemma withdraw_ledger_inv:
  assumes "fst (withdraw s amt) = Inr b"
  shows "ledger_inv seed (snd (withdraw s amt))"
proof (cases "account_type (self s)")
  case SAVINGS
  with assms show ?thesis
    by (simp add: withdraw_def SavingsAccount_withdraw_def ledger_inv_def commit_simps
          entries_of_def split: if_splits)
next
  case CURRENT
  with assms show ?thesis
    by (simp add: withdraw_def CurrentAccount_withdraw_def ledger_inv_def commit_simps
          entries_of_def split: if_splits)
qed

lemma apply_operation_ledger_inv:
  "fst (apply_operation s x) = Inr b \<Longrightarrow> ledger_inv seed (snd (apply_operation s x))"
  by (cases x) (simp_all add: deposit_ledger_inv withdraw_ledger_inv)

lemma run_ledger_inv:
  "ledger_inv seed s \<Longrightarrow> run s ops = Some s' \<Longrightarrow> ledger_inv seed s'"
proof (induction ops arbitrary: s)
  case Nil
  then show ?case by simp
next
  case (Cons x xs)
  obtain r s1 where a: "apply_operation s x = (r, s1)" by (cases "apply_operation s x")
  with Cons.prems(2) obtain b where r: "r = Inr b" and rest: "run s1 xs = Some s'"
    by (cases r) simp_all
  from a r have "ledger_inv seed s1"
    using apply_operation_ledger_inv [of s x b seed] by simp
  then show ?case using rest by (rule Cons.IH)
qed

lemma calculate_interest_ledger_inv:
  assumes "account_type (self s) = SAVINGS" and "fst (calculate_interest s) = Inr r"
  shows "ledger_inv seed (snd (calculate_interest s))"
proof -
  let ?i = "Decimal_div (Decimal_mul (balance (self s)) INTEREST_RATE) 12"
  have d: "deposit s ?i = SavingsAccount_deposit s ?i"
    using assms(1) by (simp add: deposit_def)
  from assms(2) obtain b where "fst (deposit s ?i) = Inr b"
    by (cases "SavingsAccount_deposit s ?i")
       (auto simp: calculate_interest_def Let_def d split: sum.splits)
  then have "ledger_inv seed (snd (deposit s ?i))" by (rule deposit_ledger_inv)
  moreover have "snd (calculate_interest s) = snd (deposit s ?i)"
    by (cases "SavingsAccount_deposit s ?i")
       (auto simp: calculate_interest_def Let_def d split: sum.splits)
  ultimately show ?thesis by simp
qed

lemma save_ledger_inv: "ledger_inv seed s \<Longrightarrow> ledger_inv seed (snd (save s))"
  by (simp add: snd_save ledger_inv_def Let_def entries_of_save save_keeps_balance
      save_keeps_transactions)

lemma Account_save_with_is_active:
  "Account_save (with_is_active b s) = with_is_active b (Account_save s)"
  by (simp add: Account_save_def with_is_active_def)

lemma run_current_0:
  "run current_0 [Deposit 200, Withdraw 50]
     = Some (snd (withdraw (snd (deposit current_0 200)) 50))"
proof -
  have 1: "fst (deposit current_0 200) = Inr True" by code_simp
  have 2: "fst (withdraw (snd (deposit current_0 200)) 50) = Inr True" by code_simp
  show ?thesis
    using 1 2
    by (cases "deposit current_0 200"; cases "withdraw (snd (deposit current_0 200)) 50")
       simp
qed

section \<open>The arithmetic beyond 28 digits\<close>

text \<open>
  Values of the context's rounding where it is not exact: the third of 10, a balance
  less 0.000000000000000000000000000001, and the sum of 10000.000000000000000000000015
  and the fee.
\<close>

lemma context_round_examples:
  "context_round (10 / 3) = 3333333333333333333333333333 / 10 ^ 27
   \<and> Decimal_sub 500 (1 / 10 ^ 30) = 500
   \<and> Decimal_sub (- 10000) (1 / 10 ^ 30) = - 10000
   \<and> Decimal_add (10000 + 15 / 10 ^ 24) 10 = 10010 + 2 / 10 ^ 23"
  by code_simp

text \<open>
  The checks of \<open>withdraw\<close> compare the rounded difference. An amount of
  0.000000000000000000000000000001 is withdrawn from a savings account at its minimum
  balance of 500.00 and from a current account at its overdraft limit of -10000.00,
  the balance of the first staying 500.00.
\<close>

lemma guards_beyond_28_digits:
  "balance (self savings_500) - 1 / 10 ^ 30 < SavingsAccount_MINIMUM_BALANCE
   \<and> fst (SavingsAccount_withdraw savings_500 (1 / 10 ^ 30)) = Inr True
   \<and> balance (self (snd (SavingsAccount_withdraw savings_500 (1 / 10 ^ 30)))) = 500
   \<and> balance (self current_at_limit) - 1 / 10 ^ 30 < - OVERDRAFT_LIMIT
   \<and> fst (CurrentAccount_withdraw current_at_limit (1 / 10 ^ 30)) = Inr True
   \<and> balance (self (snd (CurrentAccount_withdraw current_at_limit (1 / 10 ^ 30))))
       = - 10010"
proof -
  have 0: "balance (self savings_500) - 1 / 10 ^ 30 < SavingsAccount_MINIMUM_BALANCE"
    "balance (self current_at_limit) - 1 / 10 ^ 30 < - OVERDRAFT_LIMIT"
    by (simp_all add: savings_500_def current_at_limit_def
        SavingsAccount_MINIMUM_BALANCE_def OVERDRAFT_LIMIT_def)
  have 1: "fst (SavingsAccount_withdraw savings_500 (1 / 10 ^ 30)) = Inr True
   \<and> balance (self (snd (SavingsAccount_withdraw savings_500 (1 / 10 ^ 30)))) = 500"
    by code_simp
  have 2: "fst (CurrentAccount_withdraw current_at_limit (1 / 10 ^ 30)) = Inr True
   \<and> balance (self (snd (CurrentAccount_withdraw current_at_limit (1 / 10 ^ 30))))
       = - 10010"
    by code_simp
  from 0 1 2 show ?thesis by simp
qed

text \<open>
  A withdrawal of 10000.000000000000000000000015 from a balance of
  0.00000000000000000000001 passes the overdraft check and leaves
  -10010.00000000000000000000001, below the overdraft limit and the fee together.
\<close>

lemma floor_missed_beyond_28_digits:
  "\<not> column_value (10000 + 15 / 10 ^ 24)
   \<and> fst (CurrentAccount_withdraw current_tiny (10000 + 15 / 10 ^ 24)) = Inr True
   \<and> balance (self (snd (CurrentAccount_withdraw current_tiny (10000 + 15 / 10 ^ 24))))
       = - (10010 + 1 / 10 ^ 23)"
proof -
  have 0: "\<not> column_value (10000 + 15 / 10 ^ 24)" by code_simp
  have 1: "fst (CurrentAccount_withdraw current_tiny (10000 + 15 / 10 ^ 24)) = Inr True"
    by code_simp
  have 2: "balance (self (snd (CurrentAccount_withdraw current_tiny (10000 + 15 / 10 ^ 24))))
       = - (10010 + 1 / 10 ^ 23)"
    by code_simp
  from 0 1 2 show ?thesis by simp
qed

section \<open>C1: balance and ledger\<close>

text \<open>
  C1 as stated says that every public mutating operation, \<open>Account.set_balance\<close>
  included, keeps the balance equal to the \<open>balance_after\<close> of the account's latest
  entry (or to the seed value when there is none). \<open>set_balance\<close> writes the balance
  and creates no entry: on a savings account opened with 1000.00 and without entries,
  \<open>set_balance(50)\<close> succeeds, the balance is 50.00, the account still has no entry, and
  the invariant with seed 1000.00 no longer holds.
\<close>

theorem set_balance_breaks_ledger_invariant:
  "balance (self savings_1000) = 1000
   \<and> entries_of (self savings_1000) (transactions savings_1000) = []
   \<and> ledger_inv 1000 savings_1000
   \<and> fst (set_balance savings_1000 50) = Inr ()
   \<and> balance (self (snd (set_balance savings_1000 50))) = 50
   \<and> entries_of (self (snd (set_balance savings_1000 50)))
        (transactions (snd (set_balance savings_1000 50))) = []
   \<and> \<not> ledger_inv 1000 (snd (set_balance savings_1000 50))"
  by (simp add: set_balance_def savings_1000_def save_def Account_save_def ledger_inv_def
      entries_of_def Let_def)

text \<open>
  C1, amended. For every account (Savings or Current) and every sequence of successful
  deposit and withdraw operations, started where the balance is the seed value and the
  account has no entries (or where the invariant holds), the balance equals the
  \<open>balance_after\<close> of the most recently created entry of the account, or the seed value
  if the account has no entries. Of the public mutating operations, deposit, withdraw,
  \<open>calculate_interest\<close> and \<open>save\<close> preserve this invariant whenever they succeed;
  \<open>Account.set_balance\<close> is not among them.
\<close>

theorem ledger_invariant_deposit_withdraw:
  "(balance (self s) = seed \<and> entries_of (self s) (transactions s) = []
      \<longrightarrow> ledger_inv seed s)
   \<and> (ledger_inv seed s \<and> run s ops = Some s' \<longrightarrow> ledger_inv seed s')
   \<and> (ledger_inv seed s \<and> account_type (self s) = SAVINGS
        \<and> fst (calculate_interest s) = Inr r
        \<longrightarrow> ledger_inv seed (snd (calculate_interest s)))
   \<and> (ledger_inv seed s \<and> fst (save s) = Inr ()
        \<longrightarrow> ledger_inv seed (snd (save s)))"
proof (intro conjI impI)
  assume "balance (self s) = seed \<and> entries_of (self s) (transactions s) = []"
  then show "ledger_inv seed s" by (simp add: ledger_inv_def)
next
  assume "ledger_inv seed s \<and> run s ops = Some s'"
  then show "ledger_inv seed s'" using run_ledger_inv by blast
next
  assume "ledger_inv seed s \<and> account_type (self s) = SAVINGS
        \<and> fst (calculate_interest s) = Inr r"
  then show "ledger_inv seed (snd (calculate_interest s))"
    using calculate_interest_ledger_inv by blast
next
  assume "ledger_inv seed s \<and> fst (save s) = Inr ()"
  then show "ledger_inv seed (snd (save s))" by (simp add: save_ledger_inv)
qed

text \<open>
  An instance: a current account opened with 0.00 deposits 200.00 and withdraws 50.00.
  The balance is 140.00, the \<open>balance_after\<close> of the Fee entry created last. A savings
  account opened with 601.50 keeps the invariant when interest is added and when it is
  saved.
\<close>

theorem ledger_invariant_deposit_withdraw_witness:
  "balance (self current_0) = 0
   \<and> entries_of (self current_0) (transactions current_0) = []
   \<and> ledger_inv 0 current_0
   \<and> run current_0 [Deposit 200, Withdraw 50]
       = Some (snd (withdraw (snd (deposit current_0 200)) 50))
   \<and> ledger_inv 0 (snd (withdraw (snd (deposit current_0 200)) 50))
   \<and> balance (self (snd (withdraw (snd (deposit current_0 200)) 50))) = 140
   \<and> map balance_after (transactions (snd (withdraw (snd (deposit current_0 200)) 50)))
       = [200, 140, 140]
   \<and> account_type (self savings_601_50) = SAVINGS
   \<and> fst (calculate_interest savings_601_50) = Inr (401 / 200)
   \<and> ledger_inv (1203 / 2) (snd (calculate_interest savings_601_50))
   \<and> fst (save savings_601_50) = Inr ()
   \<and> ledger_inv (1203 / 2) (snd (save savings_601_50))"
proof -
  have h: "balance (self current_0) = 0
      \<and> entries_of (self current_0) (transactions current_0) = []"
    by (simp add: current_0_def entries_of_def)
  have i0: "ledger_inv 0 current_0"
    using ledger_invariant_deposit_withdraw [of current_0 0] h by blast
  note r = run_current_0
  have i1: "ledger_inv 0 (snd (withdraw (snd (deposit current_0 200)) 50))"
    using ledger_invariant_deposit_withdraw
            [of current_0 0 "[Deposit 200, Withdraw 50]"
                "snd (withdraw (snd (deposit current_0 200)) 50)"] i0 r
    by blast
  have b: "balance (self (snd (withdraw (snd (deposit current_0 200)) 50))) = 140"
    by code_simp
  have e: "map balance_after (transactions (snd (withdraw (snd (deposit current_0 200)) 50)))
       = [200, 140, 140]"
    by code_simp
  have g: "balance (self savings_601_50) = 1203 / 2
      \<and> entries_of (self savings_601_50) (transactions savings_601_50) = []"
    by (simp add: savings_601_50_def entries_of_def)
  have t: "account_type (self savings_601_50) = SAVINGS"
    by (simp add: savings_601_50_def)
  have c: "fst (calculate_interest savings_601_50) = Inr (401 / 200)" by code_simp
  have v: "fst (save savings_601_50) = Inr ()" by code_simp
  have j0: "ledger_inv (1203 / 2) savings_601_50"
    using ledger_invariant_deposit_withdraw [of savings_601_50 "1203 / 2"] g by blast
  have j1: "ledger_inv (1203 / 2) (snd (calculate_interest savings_601_50))"
    using ledger_invariant_deposit_withdraw [of savings_601_50 "1203 / 2" _ _ "401 / 200"]
      j0 t c by blast
  have j2: "ledger_inv (1203 / 2) (snd (save savings_601_50))"
    using ledger_invariant_deposit_withdraw [of savings_601_50 "1203 / 2"] j0 v by blast
  from h i0 r i1 b e t c j1 v j2 show ?thesis by blast
qed

section \<open>C2: the overdraft check of a current account\<close>

text \<open>
  C2 as stated says that after a successful withdrawal from a current account the
  balance is at least -10000.00, and that the withdrawal fails exactly when it would go
  below that floor. The check compares the balance less the requested amount with the
  limit and the fee is deducted after it: from a balance of 0.00 a withdrawal of
  10000.00 succeeds and both entries record -10010.00.
\<close>

theorem current_withdraw_below_overdraft_limit:
  "fst (CurrentAccount_withdraw current_0 10000) = Inr True
   \<and> balance (self (snd (CurrentAccount_withdraw current_0 10000))) = - 10010
   \<and> map balance_after (transactions (snd (CurrentAccount_withdraw current_0 10000)))
       = [- 10010, - 10010]
   \<and> \<not> - OVERDRAFT_LIMIT \<le> balance (self (snd (CurrentAccount_withdraw current_0 10000)))"
  by code_simp

text \<open>
  C2, amended. For every Current account and every amount, balance and amount being
  values of the column type (at most 2 fractional digits and 12 digits), \<open>withdraw\<close>
  fails with OverdraftExceeded exactly when the amount is positive and the balance less
  the requested amount is below -\<open>overdraft_limit\<close> (-10000.00). When \<open>withdraw\<close>
  succeeds, the balance less the requested amount is at least -\<open>overdraft_limit\<close>, and
  the resulting balance, which is lower by the transaction fee, is at least
  -\<open>overdraft_limit\<close> - \<open>transaction_fee\<close>.
\<close>

theorem current_withdraw_overdraft_check:
  assumes "column_value (balance (self s))" and "column_value amt"
  shows "(fst (CurrentAccount_withdraw s amt) = Inl OverdraftExceeded
            \<longleftrightarrow> 0 < amt \<and> balance (self s) - amt < - OVERDRAFT_LIMIT)
         \<and> (fst (CurrentAccount_withdraw s amt) = Inr True \<longrightarrow>
              - OVERDRAFT_LIMIT \<le> balance (self s) - amt
              \<and> balance (self (snd (CurrentAccount_withdraw s amt)))
                  = balance (self s) - amt - TRANSACTION_FEE
              \<and> - OVERDRAFT_LIMIT - TRANSACTION_FEE
                  \<le> balance (self (snd (CurrentAccount_withdraw s amt))))"
  using column_Decimal_sub [OF assms] column_total_deduction [OF assms]
  by (simp add: CurrentAccount_withdraw_def commit_simps)

text \<open>
  An instance: from a balance of 0.00, 10000.00 is withdrawn and 10001.00 is refused.
\<close>

theorem current_withdraw_overdraft_check_witness:
  "column_value (balance (self current_0)) \<and> column_value 10000 \<and> column_value 10001
   \<and> fst (CurrentAccount_withdraw current_0 10000) = Inr True
   \<and> - OVERDRAFT_LIMIT \<le> balance (self current_0) - 10000
   \<and> balance (self (snd (CurrentAccount_withdraw current_0 10000)))
        = balance (self current_0) - 10000 - TRANSACTION_FEE
   \<and> (0::rat) < 10001 \<and> balance (self current_0) - 10001 < - OVERDRAFT_LIMIT
   \<and> fst (CurrentAccount_withdraw current_0 10001) = Inl OverdraftExceeded"
proof -
  have c: "column_value (balance (self current_0))" "column_value 10000" "column_value 10001"
    by (simp_all add: column_value_def current_0_def at_most_2_fractional_digits_numeral
        at_most_2_fractional_digits_def)
  have r: "fst (CurrentAccount_withdraw current_0 10000) = Inr True" by code_simp
  have h: "(0::rat) < 10001 \<and> balance (self current_0) - 10001 < - OVERDRAFT_LIMIT"
    by (simp add: current_0_def OVERDRAFT_LIMIT_def)
  from current_withdraw_overdraft_check [OF c(1) c(2)] r
  have 1: "- OVERDRAFT_LIMIT \<le> balance (self current_0) - 10000
     \<and> balance (self (snd (CurrentAccount_withdraw current_0 10000)))
        = balance (self current_0) - 10000 - TRANSACTION_FEE" by blast
  from current_withdraw_overdraft_check [OF c(1) c(3)] h
  have 2: "fst (CurrentAccount_withdraw current_0 10001) = Inl OverdraftExceeded" by blast
  from c r h 1 2 show ?thesis by blast
qed

section \<open>C3: withdrawal and fee of a current account\<close>




section \<open>C4: withdrawal from a savings account\<close>




section \<open>C5: inactive accounts\<close>

text \<open>
  C5 as stated says that an account whose \<open>is_active\<close> flag is false rejects deposit and
  withdraw with AccountInactive and keeps its balance and ledger. Neither method reads
  the flag: an inactive savings account with 1000.00 accepts a deposit of 100.00, its
  balance becomes 1100.00 and one entry is created.
\<close>

theorem inactive_account_accepts_deposit:
  "\<not> is_active (self savings_inactive)
   \<and> fst (deposit savings_inactive 100) = Inr True
   \<and> balance (self (snd (deposit savings_inactive 100))) = 1100
   \<and> balance (self savings_inactive) = 1000
   \<and> length (transactions (snd (deposit savings_inactive 100))) = 1
   \<and> transactions savings_inactive = []"
  by code_simp

text \<open>
  C5, amended. For every account, deposit and withdraw (on both Savings and Current
  variants) do not consult the \<open>is_active\<close> flag: whatever the flag is, the operation has
  the same outcome and the same effect on balance and ledger, and the flag is left as it
  was. In particular no operation fails because the account is inactive.
\<close>

theorem is_active_not_consulted:
  "deposit (with_is_active b s) amt
     = (fst (deposit s amt), with_is_active b (snd (deposit s amt)))
   \<and> withdraw (with_is_active b s) amt
     = (fst (withdraw s amt), with_is_active b (snd (withdraw s amt)))"
  by (simp add: deposit_def withdraw_def SavingsAccount_deposit_def
      CurrentAccount_deposit_def SavingsAccount_withdraw_def CurrentAccount_withdraw_def
      and_then_save and_then_create Let_def Account_save_def with_is_active_def
      split: account_type.split)

text \<open>
  An instance: the savings account with 1000.00, made inactive, withdraws 400.00 as the
  active one does.
\<close>

theorem is_active_not_consulted_witness:
  "\<not> is_active (self (with_is_active False savings_1000))
   \<and> fst (withdraw (with_is_active False savings_1000) 400) = Inr True
   \<and> balance (self (snd (withdraw (with_is_active False savings_1000) 400))) = 600
   \<and> \<not> is_active (self (snd (withdraw (with_is_active False savings_1000) 400)))"
proof -
  have e: "withdraw (with_is_active False savings_1000) 400
      = (fst (withdraw savings_1000 400), with_is_active False (snd (withdraw savings_1000 400)))"
    using is_active_not_consulted [of False savings_1000 400] by blast
  have r: "fst (withdraw savings_1000 400) = Inr True" by code_simp
  have b: "balance (self (snd (withdraw savings_1000 400))) = 600" by code_simp
  show ?thesis unfolding e using r b by (simp add: with_is_active_def)
qed

section \<open>C6: failed operations\<close>




section \<open>C7: account numbers\<close>

text \<open>
  C7 says that account numbers are 12-digit numeric strings generated at creation and
  that a number which collides with the number of an existing account is generated
  again, so that distinct accounts have distinct numbers. \<open>generate_account_number\<close>,
  documented as generating a unique number, returns the 12 digits drawn and knows no
  other account, and \<open>save\<close> takes its result as it is: when the draws for a second new
  account repeat those of the first, both accounts get the number 000000000000.
\<close>

theorem save_assigns_colliding_number:
  "pk (self new_savings) \<noteq> pk (self new_current)
   \<and> account_number (self new_savings) = []
   \<and> account_number (self new_current) = []
   \<and> account_number (self (Account_save new_savings)) = ''000000000000''
   \<and> account_number (self (Account_save new_current)) = ''000000000000''"
  by (simp add: Account_save_def new_savings_def new_current_def generate_account_number_def
      choices_def digits_def zero_draws_def upt_rec)

section \<open>C8: interest\<close>




section \<open>C9: validation of amounts\<close>




section \<open>C10: the floor of a current account with the fee\<close>



end
